theory Spec2Isabelle
  imports Main
begin

section \<open>JavaScript strings\<close>

text \<open>
  A JavaScript string is modelled as a \<^typ>\<open>string\<close>: every \<^typ>\<open>char\<close> stands for one code
  unit below 256 (the ASCII and Latin-1 range). The classes below are the ones of the
  ECMAScript regular expression escapes \<^verbatim>\<open>\s\<close> and \<^verbatim>\<open>\w\<close> restricted to that range.
\<close>

definition isSpace :: "char \<Rightarrow> bool" where
  "isSpace c = (let n = (of_char c :: nat) in
     n = 9 \<or> n = 10 \<or> n = 11 \<or> n = 12 \<or> n = 13 \<or> n = 32 \<or> n = 160)"

definition isWordChar :: "char \<Rightarrow> bool" where
  "isWordChar c = (let n = (of_char c :: nat) in
     (65 \<le> n \<and> n \<le> 90) \<or> (97 \<le> n \<and> n \<le> 122) \<or> (48 \<le> n \<and> n \<le> 57) \<or> n = 95)"

definition lowerChar :: "char \<Rightarrow> char" where
  "lowerChar c = (let n = (of_char c :: nat) in
     if (65 \<le> n \<and> n \<le> 90) \<or> (192 \<le> n \<and> n \<le> 222 \<and> n \<noteq> 215)
     then char_of (n + 32) else c)"

definition toLowerCase :: "string \<Rightarrow> string" where
  "toLowerCase s = map lowerChar s"

text \<open>\<^verbatim>\<open>s.startsWith(p)\<close> and the rest of \<open>s\<close> after a literal prefix.\<close>

definition startsWith :: "string \<Rightarrow> string \<Rightarrow> bool" where
  "startsWith s p = (take (length p) s = p)"

definition stripPrefix :: "string \<Rightarrow> string \<Rightarrow> string option" where
  "stripPrefix p s = (if startsWith s p then Some (drop (length p) s) else None)"




text \<open>A string in a condition is truthy exactly when it is not empty.\<close>

definition truthy :: "string \<Rightarrow> bool" where
  "truthy s = (s \<noteq> [])"



section \<open>Language configurations of the Docker service\<close>

text \<open>
  One entry of \<^verbatim>\<open>languageConfigs\<close>. A property that an entry does not have reads as
  \<^verbatim>\<open>undefined\<close>, which is \<^const>\<open>None\<close> here.
\<close>

record langConfig =
  imageName :: "string option"
  extension :: "string option"
  filename :: "string option"
  command :: "string list option"
  inputCommand :: "string list option"
  workDir :: "string option"

definition mkConfig ::
  "string \<Rightarrow> string \<Rightarrow> string \<Rightarrow> string list \<Rightarrow> string list option \<Rightarrow> langConfig" where
  "mkConfig img ext fname cmd icmd =
     \<lparr> imageName = Some img, extension = Some ext, filename = Some fname,
       command = Some cmd, inputCommand = icmd, workDir = Some ''/code'' \<rparr>"

text \<open>The own properties of \<^verbatim>\<open>languageConfigs\<close> in the first version of the service.\<close>

definition ownConfigs :: "(string \<times> langConfig) list" where
  "ownConfigs =
    [(''javascript'', mkConfig ''node:16-alpine'' ''js'' ''program.js''
        [''node'', ''/code/program.js'']
        (Some [''bash'', ''-c'', ''cat /code/input.txt | node /code/program.js''])),
     (''python'', mkConfig ''python:3.9-alpine'' ''py'' ''program.py''
        [''python'', ''/code/program.py'']
        (Some [''bash'', ''-c'', ''cat /code/input.txt | python /code/program.py''])),
     (''java'', mkConfig ''openjdk:11-jdk-slim'' ''java'' ''Main.java''
        [''bash'', ''-c'', ''cd /code && javac Main.java && java Main'']
        (Some [''bash'', ''-c'', ''cd /code && javac Main.java && cat input.txt | java Main''])),
     (''cpp'', mkConfig ''gcc:latest'' ''cpp'' ''program.cpp''
        [''bash'', ''-c'', ''cd /code && g++ -o program program.cpp && ./program'']
        (Some [''bash'', ''-c'',
           ''cd /code && g++ -o program program.cpp && cat input.txt | ./program''])),
     (''c'', mkConfig ''gcc:latest'' ''c'' ''program.c''
        [''bash'', ''-c'', ''cd /code && gcc -o program program.c && ./program'']
        (Some [''bash'', ''-c'',
           ''cd /code && gcc -o program program.c && cat input.txt | ./program''])),
     (''html'', mkConfig ''nginx:alpine'' ''html'' ''index.html''
        [''echo'', ''HTML files are for preview only''] None)]"

text \<open>
  \<^verbatim>\<open>languageConfigs\<close> and \<^verbatim>\<open>imageMap\<close> are object literals, so a property read
  \<^verbatim>\<open>obj[key]\<close> that finds no own property continues in \<^verbatim>\<open>Object.prototype\<close>. Its
  properties are functions (or, for \<^verbatim>\<open>__proto__\<close>, the prototype object itself):
  truthy values that have none of the properties of a configuration.
\<close>

definition objectPrototypeKeys :: "string list" where
  "objectPrototypeKeys =
    [''constructor'', ''__proto__'', ''hasOwnProperty'', ''isPrototypeOf'',
     ''propertyIsEnumerable'', ''toLocaleString'', ''toString'', ''valueOf'',
     ''__defineGetter__'', ''__defineSetter__'', ''__lookupGetter__'', ''__lookupSetter__'']"

definition inheritedValue :: langConfig where
  "inheritedValue =
     \<lparr> imageName = None, extension = None, filename = None,
       command = None, inputCommand = None, workDir = None \<rparr>"

text \<open>\<^verbatim>\<open>languageConfigs[key]\<close>; \<^const>\<open>None\<close> is \<^verbatim>\<open>undefined\<close>.\<close>

definition languageConfigs :: "string \<Rightarrow> langConfig option" where
  "languageConfigs key =
     (case map_of ownConfigs key of
        Some c \<Rightarrow> Some c
      | None \<Rightarrow> if key \<in> set objectPrototypeKeys then Some inheritedValue else None)"

text \<open>The language profile registry: the languages that have a configuration of their own.\<close>

definition registered :: "string \<Rightarrow> bool" where
  "registered language = (toLowerCase language \<in> set (map fst ownConfigs))"


section \<open>The name of the source file\<close>

text \<open>
  \<^verbatim>\<open>code.match(/public\s+class\s+(\w+)/)\<close>: \<open>matchAt\<close> matches the expression at the
  start of a string and returns the capture group, \<open>classNameMatch\<close> searches the
  leftmost position where it matches.
\<close>

definition matchAt :: "string \<Rightarrow> string option" where
  "matchAt s =
     (case stripPrefix ''public'' s of
        None \<Rightarrow> None
      | Some r1 \<Rightarrow>
          if takeWhile isSpace r1 = [] then None
          else (case stripPrefix ''class'' (dropWhile isSpace r1) of
                  None \<Rightarrow> None
                | Some r2 \<Rightarrow>
                    if takeWhile isSpace r2 = [] then None
                    else if takeWhile isWordChar (dropWhile isSpace r2) = [] then None
                    else Some (takeWhile isWordChar (dropWhile isSpace r2))))"

fun classNameMatch :: "string \<Rightarrow> string option" where
  "classNameMatch [] = matchAt []"
| "classNameMatch (c # cs) =
     (case matchAt (c # cs) of
        Some n \<Rightarrow> Some n
      | None \<Rightarrow> classNameMatch cs)"

definition sourceFileName :: "langConfig \<Rightarrow> string \<Rightarrow> string \<Rightarrow> string" where
  "sourceFileName config language code =
     (if toLowerCase language = ''java''
      then (case classNameMatch code of Some className \<Rightarrow> className | None \<Rightarrow> ''Main'')
             @ ''.java''
      else (case filename config of
              Some f \<Rightarrow> if truthy f then f
                        else ''program.'' @ (case extension config of Some e \<Rightarrow> e | None \<Rightarrow> ''undefined'')
            | None \<Rightarrow> ''program.'' @ (case extension config of Some e \<Rightarrow> e | None \<Rightarrow> ''undefined'')))"


subsection \<open>What the regular expression finds\<close>





section \<open>Effects: file system, Docker daemon, results\<close>

text \<open>
  An \<^verbatim>\<open>async\<close> function ends in one of three ways: its promise is fulfilled with a
  value, it is rejected with an error (of which the message is kept), or it never
  settles because an awaited promise never settles.
\<close>

datatype 'a outcome = Returns 'a | Throws string | Pending

text \<open>The options object passed to \<^verbatim>\<open>docker.createContainer\<close>.\<close>

record containerConfig =
  Image :: "string option"
  Cmd :: "string list option"
  WorkingDir :: "string option"
  Binds :: "string list"
  NetworkMode :: string
  Memory :: nat
  MemorySwap :: nat
  CpuPeriod :: nat
  CpuQuota :: nat
  PidsLimit :: nat
  ReadonlyRootfs :: bool
  AutoRemove :: bool
  Tty :: bool
  OpenStdin :: bool
  StdinOnce :: bool

text \<open>
  What the program, the Docker daemon and the file system answer during one call of
  \<^verbatim>\<open>executeCode\<close>. An error field holds the message of the error with which the call
  rejects, \<^const>\<open>None\<close> when it succeeds. \<open>tempRoot\<close> is the value of
  \<^verbatim>\<open>path.join(__dirname, '..', 'temp')\<close>, \<open>uuid\<close> the value of \<^verbatim>\<open>uuidv4()\<close>.
\<close>

datatype waitAnswer = Exited int | WaitFailed string | NeverExits

record world =
  uuid :: string
  tempRoot :: string
  mkdirError :: "string option"
  writeCodeError :: "string option"
  writeInputError :: "string option"
  inspectError :: "string option"
  pullError :: "string option"
  createError :: "string option"
  startError :: "string option"
  attachError :: "string option"
  waitAnswer :: waitAnswer
  logsAnswer :: "string + string"
  rmError :: "string option"
  rmCatchError :: "string option"

text \<open>
  The state the claims observe: the directories and files on disk, the images for which
  \<^verbatim>\<open>docker.pull\<close> was called, the options with which \<^verbatim>\<open>docker.createContainer\<close>
  was called, the containers that exist, those that run, and what was written to a
  container's standard input.
\<close>

record sys =
  dirs :: "string set"
  files :: "(string \<times> string) list"
  pulls :: "string option list"
  createCalls :: "containerConfig list"
  created :: "containerConfig list"
  running :: "containerConfig list"
  stdinWritten :: "string list"

type_synonym 'a io = "sys \<Rightarrow> sys \<times> 'a outcome"

definition ret :: "'a \<Rightarrow> 'a io" where
  "ret x = (\<lambda>s. (s, Returns x))"

definition throw :: "string \<Rightarrow> 'a io" where
  "throw e = (\<lambda>s. (s, Throws e))"

definition bind :: "'a io \<Rightarrow> ('a \<Rightarrow> 'b io) \<Rightarrow> 'b io" where
  "bind m f = (\<lambda>s. case m s of
       (s', Returns x) \<Rightarrow> f x s'
     | (s', Throws e) \<Rightarrow> (s', Throws e)
     | (s', Pending) \<Rightarrow> (s', Pending))"

definition tryCatch :: "'a io \<Rightarrow> (string \<Rightarrow> 'a io) \<Rightarrow> 'a io" where
  "tryCatch m h = (\<lambda>s. case m s of
       (s', Throws e) \<Rightarrow> h e s'
     | r \<Rightarrow> r)"

definition ifThen :: "bool \<Rightarrow> unit io \<Rightarrow> unit io" where
  "ifThen b m = (if b then m else ret ())"

definition rejectsWith :: "string option \<Rightarrow> unit io \<Rightarrow> unit io" where
  "rejectsWith err m = (case err of Some e \<Rightarrow> throw e | None \<Rightarrow> m)"

text \<open>\<^verbatim>\<open>fs.mkdir(p, {recursive: true})\<close>, \<^verbatim>\<open>fs.writeFile(p, content)\<close> and
  \<^verbatim>\<open>fs.rm(p, {recursive: true, force: true})\<close>. A call that rejects leaves the disk
  as it was.\<close>

definition fs_mkdir :: "string option \<Rightarrow> string \<Rightarrow> unit io" where
  "fs_mkdir err p = rejectsWith err (\<lambda>s. (s\<lparr>dirs := insert p (dirs s)\<rparr>, Returns ()))"

definition fs_writeFile :: "string option \<Rightarrow> string \<Rightarrow> string \<Rightarrow> unit io" where
  "fs_writeFile err p content =
     rejectsWith err (\<lambda>s. (s\<lparr>files := (p, content) # filter (\<lambda>f. fst f \<noteq> p) (files s)\<rparr>, Returns ()))"

definition fs_rm :: "string option \<Rightarrow> string \<Rightarrow> unit io" where
  "fs_rm err p =
     rejectsWith err (\<lambda>s. (s\<lparr>dirs := dirs s - {p},
                              files := filter (\<lambda>f. \<not> startsWith (fst f) (p @ ''/'')) (files s)\<rparr>,
                           Returns ()))"

text \<open>\<^verbatim>\<open>docker.getImage(image).inspect()\<close> and \<^verbatim>\<open>pullImage(image)\<close>, which calls
  \<^verbatim>\<open>docker.pull\<close> and follows its progress to the end.\<close>

definition docker_inspect :: "world \<Rightarrow> string option \<Rightarrow> unit io" where
  "docker_inspect w img = rejectsWith (inspectError w) (ret ())"

definition pullImage :: "world \<Rightarrow> string option \<Rightarrow> unit io" where
  "pullImage w img = (\<lambda>s.
     rejectsWith (pullError w) (ret ()) (s\<lparr>pulls := pulls s @ [img]\<rparr>))"

text \<open>Creating, starting, feeding and awaiting a container, and reading its logs. A
  container that exits stops running and, when it was created with \<open>AutoRemove\<close>, is
  removed by the daemon.\<close>

definition docker_createContainer :: "world \<Rightarrow> containerConfig \<Rightarrow> containerConfig io" where
  "docker_createContainer w c = (\<lambda>s.
     (case createError w of
        Some e \<Rightarrow> (s\<lparr>createCalls := createCalls s @ [c]\<rparr>, Throws e)
      | None \<Rightarrow> (s\<lparr>createCalls := createCalls s @ [c], created := c # created s\<rparr>,
                  Returns c)))"

definition container_start :: "world \<Rightarrow> containerConfig \<Rightarrow> unit io" where
  "container_start w c =
     rejectsWith (startError w) (\<lambda>s. (s\<lparr>running := c # running s\<rparr>, Returns ()))"

definition container_attach_write :: "world \<Rightarrow> string \<Rightarrow> unit io" where
  "container_attach_write w inp =
     rejectsWith (attachError w) (\<lambda>s. (s\<lparr>stdinWritten := stdinWritten s @ [inp]\<rparr>, Returns ()))"

definition container_wait :: "world \<Rightarrow> containerConfig \<Rightarrow> int io" where
  "container_wait w c =
     (case waitAnswer w of
        Exited code \<Rightarrow> (\<lambda>s. (s\<lparr>running := remove1 c (running s),
                                  created := (if AutoRemove c then remove1 c (created s)
                                              else created s)\<rparr>, Returns code))
      | WaitFailed e \<Rightarrow> throw e
      | NeverExits \<Rightarrow> (\<lambda>s. (s, Pending)))"

definition container_logs :: "world \<Rightarrow> string io" where
  "container_logs w = (case logsAnswer w of Inl e \<Rightarrow> throw e | Inr out \<Rightarrow> ret out)"

text \<open>Values of the properties of a result object, and the object as the list of its
  properties in the order of the object literal.\<close>

datatype jsval = JStr string | JNum int | JBool bool

type_synonym jsobject = "(string \<times> jsval) list"

definition resultObject :: "string \<Rightarrow> string \<Rightarrow> string \<Rightarrow> int \<Rightarrow> jsobject" where
  "resultObject executionId st out code =
     [(''executionId'', JStr executionId), (''status'', JStr st),
      (''output'', JStr out), (''exitCode'', JNum code)]"



section \<open>The Docker service: \<open>executeCode\<close>\<close>

definition tempDir :: "world \<Rightarrow> string" where
  "tempDir w = tempRoot w @ ''/'' @ uuid w"

definition containerConfigFor :: "world \<Rightarrow> langConfig \<Rightarrow> string \<Rightarrow> containerConfig" where
  "containerConfigFor w config inp =
     \<lparr> Image = imageName config,
       Cmd = (if truthy inp \<and> inputCommand config \<noteq> None then inputCommand config
              else command config),
       WorkingDir = workDir config,
       Binds = [tempDir w @ '':/code''],
       NetworkMode = ''none'',
       Memory = 512 * 1024 * 1024,
       MemorySwap = 512 * 1024 * 1024,
       CpuPeriod = 100000,
       CpuQuota = 50000,
       PidsLimit = 50,
       ReadonlyRootfs = False,
       AutoRemove = True,
       Tty = False,
       OpenStdin = True,
       StdinOnce = True \<rparr>"

definition tryBlock :: "world \<Rightarrow> langConfig \<Rightarrow> string \<Rightarrow> string \<Rightarrow> string \<Rightarrow> jsobject io" where
  "tryBlock w config code language inp =
     bind (fs_mkdir (mkdirError w) (tempDir w)) (\<lambda>_.
     bind (fs_writeFile (writeCodeError w)
             (tempDir w @ ''/'' @ sourceFileName config language code) code) (\<lambda>_.
     bind (ifThen (truthy inp)
             (fs_writeFile (writeInputError w) (tempDir w @ ''/input.txt'') inp)) (\<lambda>_.
     bind (tryCatch (docker_inspect w (imageName config))
             (\<lambda>error. pullImage w (imageName config))) (\<lambda>_.
     bind (docker_createContainer w (containerConfigFor w config inp)) (\<lambda>container.
     bind (container_start w container) (\<lambda>_.
     bind (ifThen (truthy inp \<and> inputCommand config = None)
             (container_attach_write w inp)) (\<lambda>_.
     bind (container_wait w container) (\<lambda>statusCode.
     bind (container_logs w) (\<lambda>out.
     bind (fs_rm (rmError w) (tempDir w)) (\<lambda>_.
     ret (resultObject (uuid w) (if statusCode = 0 then ''success'' else ''error'')
            out statusCode)))))))))))"

definition catchBlock :: "world \<Rightarrow> string \<Rightarrow> jsobject io" where
  "catchBlock w errorMessage =
     bind (tryCatch (fs_rm (rmCatchError w) (tempDir w)) (\<lambda>cleanupError. ret ())) (\<lambda>_.
     ret (resultObject (uuid w) ''error'' errorMessage 1))"

definition executeCode :: "world \<Rightarrow> string \<Rightarrow> string \<Rightarrow> string \<Rightarrow> jsobject io" where
  "executeCode w code language inp =
     (case languageConfigs (toLowerCase language) of
        None \<Rightarrow> throw (''Unsupported language: '' @ language)
      | Some config \<Rightarrow> tryCatch (tryBlock w config code language inp) (catchBlock w))"


text \<open>
  The execution reaches \<^verbatim>\<open>container.wait()\<close>: the workspace was written, the image is
  there (it was found, or the pull succeeded), the container was created and started,
  and the input, when it is written to the attached stream, was written.
\<close>

definition reachesWait :: "world \<Rightarrow> langConfig \<Rightarrow> string \<Rightarrow> bool" where
  "reachesWait w config inp =
     (mkdirError w = None \<and> writeCodeError w = None
      \<and> (truthy inp \<longrightarrow> writeInputError w = None)
      \<and> (inspectError w \<noteq> None \<longrightarrow> pullError w = None)
      \<and> createError w = None \<and> startError w = None
      \<and> (truthy inp \<and> inputCommand config = None \<longrightarrow> attachError w = None))"


subsection \<open>The second version of the service\<close>

text \<open>
  The second version of the file has no \<^verbatim>\<open>filename\<close> and no \<^verbatim>\<open>inputCommand\<close>
  in its configurations and no \<^verbatim>\<open>html\<close> entry, always runs \<^verbatim>\<open>config.command\<close>,
  always writes the input to the attached stream, and mounts the root file system
  read-only.
\<close>

definition mkConfig2 :: "string \<Rightarrow> string \<Rightarrow> string list \<Rightarrow> langConfig" where
  "mkConfig2 img ext cmd =
     \<lparr> imageName = Some img, extension = Some ext, filename = None,
       command = Some cmd, inputCommand = None, workDir = Some ''/code'' \<rparr>"

definition ownConfigs2 :: "(string \<times> langConfig) list" where
  "ownConfigs2 =
    [(''javascript'', mkConfig2 ''node:16-alpine'' ''js'' [''node'', ''/code/program.js'']),
     (''python'', mkConfig2 ''python:3.9-alpine'' ''py'' [''python'', ''/code/program.py'']),
     (''java'', mkConfig2 ''openjdk:11-jdk-slim'' ''java''
        [''bash'', ''-c'', ''cd /code && javac Main.java && java Main'']),
     (''cpp'', mkConfig2 ''gcc:latest'' ''cpp''
        [''bash'', ''-c'', ''cd /code && g++ -o program program.cpp && ./program'']),
     (''c'', mkConfig2 ''gcc:latest'' ''c''
        [''bash'', ''-c'', ''cd /code && gcc -o program program.c && ./program''])]"

definition languageConfigs2 :: "string \<Rightarrow> langConfig option" where
  "languageConfigs2 key =
     (case map_of ownConfigs2 key of
        Some c \<Rightarrow> Some c
      | None \<Rightarrow> if key \<in> set objectPrototypeKeys then Some inheritedValue else None)"

definition sourceFileName2 :: "langConfig \<Rightarrow> string \<Rightarrow> string \<Rightarrow> string" where
  "sourceFileName2 config language code =
     (if toLowerCase language = ''java''
      then (case classNameMatch code of Some className \<Rightarrow> className | None \<Rightarrow> ''Main'')
             @ ''.java''
      else ''program.'' @ (case extension config of Some e \<Rightarrow> e | None \<Rightarrow> ''undefined''))"

definition containerConfigFor2 :: "world \<Rightarrow> langConfig \<Rightarrow> containerConfig" where
  "containerConfigFor2 w config =
     \<lparr> Image = imageName config,
       Cmd = command config,
       WorkingDir = workDir config,
       Binds = [tempDir w @ '':/code''],
       NetworkMode = ''none'',
       Memory = 512 * 1024 * 1024,
       MemorySwap = 512 * 1024 * 1024,
       CpuPeriod = 100000,
       CpuQuota = 50000,
       PidsLimit = 50,
       ReadonlyRootfs = True,
       AutoRemove = True,
       Tty = False,
       OpenStdin = True,
       StdinOnce = True \<rparr>"

definition tryBlock2 :: "world \<Rightarrow> langConfig \<Rightarrow> string \<Rightarrow> string \<Rightarrow> string \<Rightarrow> jsobject io" where
  "tryBlock2 w config code language inp =
     bind (fs_mkdir (mkdirError w) (tempDir w)) (\<lambda>_.
     bind (fs_writeFile (writeCodeError w)
             (tempDir w @ ''/'' @ sourceFileName2 config language code) code) (\<lambda>_.
     bind (ifThen (truthy inp)
             (fs_writeFile (writeInputError w) (tempDir w @ ''/input.txt'') inp)) (\<lambda>_.
     bind (tryCatch (docker_inspect w (imageName config))
             (\<lambda>error. pullImage w (imageName config))) (\<lambda>_.
     bind (docker_createContainer w (containerConfigFor2 w config)) (\<lambda>container.
     bind (container_start w container) (\<lambda>_.
     bind (ifThen (truthy inp) (container_attach_write w inp)) (\<lambda>_.
     bind (container_wait w container) (\<lambda>statusCode.
     bind (container_logs w) (\<lambda>out.
     bind (fs_rm (rmError w) (tempDir w)) (\<lambda>_.
     ret (resultObject (uuid w) (if statusCode = 0 then ''success'' else ''error'')
            out statusCode)))))))))))"

definition executeCode2 :: "world \<Rightarrow> string \<Rightarrow> string \<Rightarrow> string \<Rightarrow> jsobject io" where
  "executeCode2 w code language inp =
     (case languageConfigs2 (toLowerCase language) of
        None \<Rightarrow> throw (''Unsupported language: '' @ language)
      | Some config \<Rightarrow> tryCatch (tryBlock2 w config code language inp) (catchBlock w))"

text \<open>
  A run command has a compile step that writes next to the source when it calls one of
  the compilers of the configurations: \<^verbatim>\<open>javac\<close>, \<^verbatim>\<open>g++\<close> or \<^verbatim>\<open>gcc\<close>.
\<close>

fun includesStr :: "string \<Rightarrow> string \<Rightarrow> bool" where
  "includesStr [] p = (p = [])"
| "includesStr (c # cs) p = (startsWith (c # cs) p \<or> includesStr cs p)"

definition compileStep :: "langConfig \<Rightarrow> bool" where
  "compileStep config =
     (case command config of
        None \<Rightarrow> False
      | Some cmd \<Rightarrow> list_ex (\<lambda>a. includesStr a ''javac '' \<or> includesStr a ''g++ '' \<or> includesStr a ''gcc '') cmd)"


text \<open>Every call of \<^verbatim>\<open>docker.createContainer\<close> that an action makes passes options
  that satisfy \<open>P\<close>.\<close>

definition createsOnly :: "(containerConfig \<Rightarrow> bool) \<Rightarrow> 'a io \<Rightarrow> bool" where
  "createsOnly P m =
     (\<forall>s. \<exists>cs. createCalls (fst (m s)) = createCalls s @ cs \<and> list_all P cs)"


subsection \<open>Concrete executions\<close>

text \<open>An empty disk and daemon, and a run in which every call succeeds and the program
  prints \<^verbatim>\<open>hi\<close> and exits with code 0.\<close>

definition emptySys :: sys where
  "emptySys =
     \<lparr> dirs = {}, files = [], pulls = [], createCalls = [], created = [], running = [],
       stdinWritten = [] \<rparr>"

definition goodRun :: world where
  "goodRun =
     \<lparr> uuid = ''7f3c'', tempRoot = ''/app/temp'',
       mkdirError = None, writeCodeError = None, writeInputError = None,
       inspectError = None, pullError = None, createError = None, startError = None,
       attachError = None, waitAnswer = Exited 0, logsAnswer = Inr ''hi'',
       rmError = None, rmCatchError = None \<rparr>"

definition pythonConfig :: langConfig where
  "pythonConfig =
     mkConfig ''python:3.9-alpine'' ''py'' ''program.py''
       [''python'', ''/code/program.py'']
       (Some [''bash'', ''-c'', ''cat /code/input.txt | python /code/program.py''])"


definition javaConfig2 :: langConfig where
  "javaConfig2 =
     mkConfig2 ''openjdk:11-jdk-slim'' ''java''
       [''bash'', ''-c'', ''cd /code && javac Main.java && java Main'']"

section \<open>The mock Docker service\<close>









section \<open>The mock terminal service\<close>




text \<open>
  The property \<^verbatim>\<open>input\<close> of the payload of an input event is a string or anything else
  (\<^verbatim>\<open>undefined\<close>, a number, an object): a value without a method \<^verbatim>\<open>trim\<close>. The
  property \<^verbatim>\<open>language\<close> of the payload of \<^verbatim>\<open>terminal_create\<close> is only compared with
  string literals, so that a value that is not a string acts as a missing one
  (\<^const>\<open>None\<close>).
\<close>

datatype inputValue = Str string | NotAString

text \<open>An entry of \<^verbatim>\<open>activeSessions\<close>. Sockets are numbered.\<close>

record session =
  s_language :: "string option"
  s_socket :: nat
  s_history :: "inputValue list"
  s_active :: bool

text \<open>What the service emits on a socket.\<close>

datatype emitted =
    TerminalCreated string string
  | TerminalOutput string string
  | TerminalError string


text \<open>A pending \<^verbatim>\<open>setTimeout\<close>: the response to an accepted input (after 300 ms), or
  the removal of a closed session (after 1000 ms).\<close>

datatype timer =
    RespondTimer nat string inputValue "string option"
  | DeleteTimer string

text \<open>
  The state of the service: \<^verbatim>\<open>activeSessions\<close> in insertion order, the handlers that
  \<^verbatim>\<open>terminal_create\<close> has registered (socket, session, language: one input, one close
  and one disconnect handler each), the pending timers, everything emitted so far, and
  whether the process has ended with an uncaught exception.
\<close>

record termState =
  activeSessions :: "(string \<times> session) list"
  handlers :: "(nat \<times> string \<times> string option) list"
  timers :: "timer list"
  emittedEvents :: "(nat \<times> emitted) list"
  crashed :: bool

text \<open>\<^verbatim>\<open>Map.set\<close> and \<^verbatim>\<open>Map.delete\<close> on a map kept as the list of its entries in
  insertion order.\<close>

definition mapSet :: "'k \<Rightarrow> 'v \<Rightarrow> ('k \<times> 'v) list \<Rightarrow> ('k \<times> 'v) list" where
  "mapSet k v m =
     (if k \<in> set (map fst m) then map (\<lambda>p. if fst p = k then (k, v) else p) m
      else m @ [(k, v)])"




definition emit :: "nat \<Rightarrow> emitted \<Rightarrow> termState \<Rightarrow> termState" where
  "emit sock e st = st\<lparr>emittedEvents := emittedEvents st @ [(sock, e)]\<rparr>"

text \<open>An exception that no handler catches ends the process: its sessions, handlers and
  timers are gone, and nothing happens any more.\<close>

definition crash :: "termState \<Rightarrow> termState" where
  "crash st =
     \<lparr> activeSessions = [], handlers = [], timers = [],
       emittedEvents = emittedEvents st, crashed = True \<rparr>"











text \<open>A session is closed when it is marked inactive or is no longer in
  \<^verbatim>\<open>activeSessions\<close>.\<close>

definition closedSession :: "termState \<Rightarrow> string \<Rightarrow> bool" where
  "closedSession st sessionId =
     (case map_of (activeSessions st) sessionId of
        None \<Rightarrow> True
      | Some sess \<Rightarrow> \<not> s_active sess)"




section \<open>The terminal service\<close>

text \<open>
  The value of \<^verbatim>\<open>imageMap[language.toLowerCase()] || 'alpine:latest'\<close> is the name of
  an image, or, when the key names a property that \<^verbatim>\<open>imageMap\<close> inherits from
  \<^verbatim>\<open>Object.prototype\<close>, that property: a function or an object, not a string.
\<close>

datatype imageValue = ImageName string | InheritedProperty string

definition imageMap :: "(string \<times> string) list" where
  "imageMap =
    [(''javascript'', ''node:16-alpine''),
     (''python'', ''python:3.9-alpine''),
     (''java'', ''openjdk:11-jdk-slim''),
     (''cpp'', ''gcc:latest''),
     (''c'', ''gcc:latest''),
     (''go'', ''golang:alpine''),
     (''ruby'', ''ruby:alpine''),
     (''rust'', ''rust:slim''),
     (''php'', ''php:cli-alpine'')]"

text \<open>The language of a request is a string or missing (\<^const>\<open>None\<close>).\<close>

definition getImageForLanguage :: "string option \<Rightarrow> imageValue" where
  "getImageForLanguage language =
     (case language of
        None \<Rightarrow> ImageName ''alpine:latest''
      | Some l \<Rightarrow>
          if \<not> truthy l then ImageName ''alpine:latest''
          else (case map_of imageMap (toLowerCase l) of
                  Some img \<Rightarrow> if truthy img then ImageName img else ImageName ''alpine:latest''
                | None \<Rightarrow>
                    if toLowerCase l \<in> set objectPrototypeKeys
                    then InheritedProperty (toLowerCase l)
                    else ImageName ''alpine:latest''))"

text \<open>The known terminal languages are the keys of \<^verbatim>\<open>imageMap\<close>.\<close>

definition knownTerminalLanguage :: "string option \<Rightarrow> bool" where
  "knownTerminalLanguage language =
     (case language of
        None \<Rightarrow> False
      | Some l \<Rightarrow> toLowerCase l \<in> set (map fst imageMap))"

text \<open>The options of the container of a terminal session.\<close>

record terminalOptions =
  t_Image :: imageValue
  t_Cmd :: "string list"
  t_Tty :: bool
  t_OpenStdin :: bool
  t_StdinOnce :: bool
  t_NetworkMode :: string
  t_Memory :: nat
  t_MemorySwap :: nat
  t_CpuPeriod :: nat
  t_CpuQuota :: nat
  t_PidsLimit :: nat
  t_AutoRemove :: bool

definition terminalOptionsFor :: "imageValue \<Rightarrow> terminalOptions" where
  "terminalOptionsFor img =
     \<lparr> t_Image = img, t_Cmd = [''/bin/sh''], t_Tty = True, t_OpenStdin = True,
       t_StdinOnce = False, t_NetworkMode = ''bridge'',
       t_Memory = 512 * 1024 * 1024, t_MemorySwap = 512 * 1024 * 1024,
       t_CpuPeriod = 100000, t_CpuQuota = 50000, t_PidsLimit = 100, t_AutoRemove = True \<rparr>"

text \<open>What the daemon answers to \<^verbatim>\<open>createContainer\<close>, \<^verbatim>\<open>start\<close> and \<^verbatim>\<open>attach\<close>
  (the message of the error, or \<^const>\<open>None\<close> when the call succeeds), and the state of
  the service: the sessions with their container options and language, the options of
  every \<^verbatim>\<open>createContainer\<close> call, and what was emitted.\<close>

record daemonAnswers =
  t_createError :: "string option"
  t_startError :: "string option"
  t_attachError :: "string option"

record terminalService =
  t_sessions :: "(string \<times> terminalOptions \<times> string option) list"
  t_createCalls :: "terminalOptions list"
  t_emitted :: "(nat \<times> emitted) list"

text \<open>The handler of \<^verbatim>\<open>terminal_create\<close>: any error is caught and reported as
  \<^verbatim>\<open>terminal_error\<close> with a fixed message.\<close>

definition terminalCreate ::
  "daemonAnswers \<Rightarrow> nat \<Rightarrow> string option \<Rightarrow> string \<Rightarrow> terminalService \<Rightarrow> terminalService" where
  "terminalCreate d sock language sessionId ts =
     (let options = terminalOptionsFor (getImageForLanguage language);
          ts1 = ts\<lparr>t_createCalls := t_createCalls ts @ [options]\<rparr>
      in if t_createError d = None \<and> t_startError d = None \<and> t_attachError d = None
         then ts1\<lparr>t_sessions := mapSet sessionId (options, language) (t_sessions ts1),
                   t_emitted := t_emitted ts1
                                  @ [(sock, TerminalCreated sessionId ''Terminal session created'')]\<rparr>
         else ts1\<lparr>t_emitted := t_emitted ts1
                                  @ [(sock, TerminalError ''Failed to create terminal session'')]\<rparr>)"

definition noTerminals :: terminalService where
  "noTerminals = \<lparr> t_sessions = [], t_createCalls = [], t_emitted = [] \<rparr>"


section \<open>Concurrent executions and the image\<close>

text \<open>
  Several calls of \<open>executeCode\<close> for the same image run interleaved: each continues
  when one of its awaited promises settles. Between its start and the creation of
  its container a call awaits \<^verbatim>\<open>inspect()\<close> and, when that rejects, \<^verbatim>\<open>pullImage\<close>:
  \<^item> \<open>Inspecting\<close>: the answer to \<^verbatim>\<open>inspect()\<close> is awaited. When it arrives and the
    image is cached the call goes on (\<open>ImageReady\<close>); when it is not, the \<^verbatim>\<open>catch\<close>
    block calls \<^verbatim>\<open>docker.pull\<close> at once (\<open>Pulling\<close>).
  \<^item> \<open>Pulling\<close>: the end of the pull is awaited. When the pull succeeds the image is
    cached and the call goes on; when it fails the call fails with the error of its
    own pull (\<open>PullFailed\<close>), which the outer \<^verbatim>\<open>catch\<close> block turns into an error
    result.
  \<open>pullError i\<close> is the error with which the pull of call \<open>i\<close> fails, \<^const>\<open>None\<close> when
  it succeeds. A schedule lists the calls in the order in which their promises settle.
\<close>

datatype ensureTask = Inspecting | Pulling | ImageReady | PullFailed string

record pullState =
  cached :: bool
  pullsIssued :: nat
  tasks :: "ensureTask list"

definition ensureStep :: "(nat \<Rightarrow> string option) \<Rightarrow> pullState \<Rightarrow> nat \<Rightarrow> pullState" where
  "ensureStep pullErr st i =
     (if i < length (tasks st)
      then (case tasks st ! i of
              Inspecting \<Rightarrow>
                if cached st then st\<lparr>tasks := (tasks st)[i := ImageReady]\<rparr>
                else st\<lparr>pullsIssued := Suc (pullsIssued st), tasks := (tasks st)[i := Pulling]\<rparr>
            | Pulling \<Rightarrow>
                (case pullErr i of
                   None \<Rightarrow> st\<lparr>cached := True, tasks := (tasks st)[i := ImageReady]\<rparr>
                 | Some e \<Rightarrow> st\<lparr>tasks := (tasks st)[i := PullFailed e]\<rparr>)
            | ImageReady \<Rightarrow> st
            | PullFailed e \<Rightarrow> st)
      else st)"

definition runSchedule :: "(nat \<Rightarrow> string option) \<Rightarrow> pullState \<Rightarrow> nat list \<Rightarrow> pullState" where
  "runSchedule pullErr st schedule = foldl (ensureStep pullErr) st schedule"

text \<open>\<open>n\<close> executions have started and the image is not cached.\<close>

definition startAll :: "nat \<Rightarrow> pullState" where
  "startAll n = \<lparr> cached = False, pullsIssued = 0, tasks = replicate n Inspecting \<rparr>"

text \<open>How the call \<open>i\<close> ends when it has pulled, and the number of calls that still
  await the answer to \<^verbatim>\<open>inspect()\<close>.\<close>

definition pullOutcome :: "(nat \<Rightarrow> string option) \<Rightarrow> nat \<Rightarrow> ensureTask" where
  "pullOutcome pullErr i = (case pullErr i of None \<Rightarrow> ImageReady | Some e \<Rightarrow> PullFailed e)"

definition waiting :: "pullState \<Rightarrow> nat" where
  "waiting st = length (filter (\<lambda>t. t = Inspecting) (tasks st))"

section \<open>Properties of the Docker service\<close>

subsection \<open>Evaluation and composition lemmas\<close>

lemmas io_defs = bind_def tryCatch_def ifThen_def rejectsWith_def ret_def throw_def
  fs_mkdir_def fs_writeFile_def fs_rm_def docker_inspect_def pullImage_def
  docker_createContainer_def container_start_def container_attach_write_def
  container_wait_def container_logs_def

lemmas eval_defs = executeCode_def tryBlock_def catchBlock_def io_defs
  languageConfigs_def ownConfigs_def objectPrototypeKeys_def inheritedValue_def mkConfig_def
  toLowerCase_def lowerChar_def truthy_def tempDir_def sourceFileName_def startsWith_def
  containerConfigFor_def goodRun_def emptySys_def

lemma toLowerCase_python: "toLowerCase ''python'' = ''python''"
  by (simp add: toLowerCase_def lowerChar_def)

lemma languageConfigs_python: "languageConfigs ''python'' = Some pythonConfig"
  by (simp add: languageConfigs_def ownConfigs_def pythonConfig_def)

lemma executeCode_unsupported:
  "languageConfigs (toLowerCase language) = None \<Longrightarrow>
   executeCode w code language inp s = (s, Throws (''Unsupported language: '' @ language))"
  by (simp add: executeCode_def throw_def)

lemma bind_ReturnsE:
  assumes "bind m f s = (s', Returns r)"
  obtains x s1 where "m s = (s1, Returns x)" and "f x s1 = (s', Returns r)"
  using assms by (auto simp add: bind_def split: prod.splits outcome.splits)

lemma tryCatch_ReturnsE:
  assumes "tryCatch m h s = (s', Returns r)"
  obtains "m s = (s', Returns r)"
  | e s1 where "m s = (s1, Throws e)" and "h e s1 = (s', Returns r)"
  using assms by (auto simp add: tryCatch_def split: prod.splits outcome.splits)

lemma fs_rm_Returns:
  "fs_rm err p s = (s', Returns x) \<Longrightarrow> p \<notin> dirs s'"
  by (auto simp add: fs_rm_def rejectsWith_def throw_def split: option.splits)


lemma tryBlock_never_exits:
  assumes "reachesWait w config inp" and "waitAnswer w = NeverExits"
  shows "snd (tryBlock w config code language inp s) = Pending"
    and "containerConfigFor w config inp
           \<in> set (running (fst (tryBlock w config code language inp s)))"
    and "containerConfigFor w config inp
           \<in> set (created (fst (tryBlock w config code language inp s)))"
    and "tempDir w \<in> dirs (fst (tryBlock w config code language inp s))"
  using assms
  by (cases "inspectError w"; auto simp add: tryBlock_def reachesWait_def io_defs)+

lemma tryBlock_returns_removed:
  assumes "tryBlock w config code language inp s = (s', Returns r)"
  shows "tempDir w \<notin> dirs s'"
  using assms unfolding tryBlock_def
  by (elim bind_ReturnsE) (auto simp add: ret_def dest: fs_rm_Returns)

lemma catchBlock_removed:
  "catchBlock w e s = (s', r) \<Longrightarrow> rmCatchError w = None \<Longrightarrow> tempDir w \<notin> dirs s'"
  by (auto simp add: catchBlock_def io_defs split: option.splits)

lemma executeCode_ReturnsE:
  assumes "executeCode w code language inp s = (s', Returns r)"
  obtains config where "languageConfigs (toLowerCase language) = Some config"
      and "tryBlock w config code language inp s = (s', Returns r)"
  | config e s1 where "languageConfigs (toLowerCase language) = Some config"
      and "tryBlock w config code language inp s = (s1, Throws e)"
      and "catchBlock w e s1 = (s', Returns r)"
  using assms
  by (auto simp add: executeCode_def throw_def split: option.splits elim: tryCatch_ReturnsE)


subsection \<open>Timeout\<close>

text \<open>
  C1, as stated, fails: here the program never exits, and \<open>executeCode\<close> does not return
  an \<^verbatim>\<open>ExecutionTimeout\<close> result: it does not return at all, and the container
  it started is still running.
\<close>

theorem executeCode_infinite_loop_counterexample:
  "snd (executeCode (goodRun\<lparr>waitAnswer := NeverExits\<rparr>)
          ''while True: pass'' ''python'' '''' emptySys) = Pending
   \<and> running (fst (executeCode (goodRun\<lparr>waitAnswer := NeverExits\<rparr>)
          ''while True: pass'' ''python'' '''' emptySys))
     = [containerConfigFor goodRun pythonConfig '''']"
  by (simp add: eval_defs pythonConfig_def)

text \<open>
  C1, amended: \<open>executeCode\<close> takes no timeout and enforces none. When the execution
  reaches \<^verbatim>\<open>container.wait()\<close> and the program never exits, \<open>executeCode\<close> never
  returns a result; the container is neither stopped nor removed, and the workspace
  directory stays on disk.
\<close>

theorem executeCode_never_times_out:
  assumes "languageConfigs (toLowerCase language) = Some config"
    and "reachesWait w config inp" and "waitAnswer w = NeverExits"
  shows "snd (executeCode w code language inp s) = Pending
       \<and> containerConfigFor w config inp
            \<in> set (running (fst (executeCode w code language inp s)))
       \<and> containerConfigFor w config inp
            \<in> set (created (fst (executeCode w code language inp s)))
       \<and> tempDir w \<in> dirs (fst (executeCode w code language inp s))"
proof -
  obtain s1 where t: "tryBlock w config code language inp s = (s1, Pending)"
    using tryBlock_never_exits(1)[OF assms(2,3), of code language s]
    by (cases "tryBlock w config code language inp s") simp
  have e: "executeCode w code language inp s = (s1, Pending)"
    using assms(1) t by (simp add: executeCode_def tryCatch_def)
  show ?thesis
    using tryBlock_never_exits[OF assms(2,3), of code language s] t e by simp
qed

theorem executeCode_never_times_out_witness:
  "languageConfigs (toLowerCase ''python'') = Some pythonConfig
   \<and> reachesWait (goodRun\<lparr>waitAnswer := NeverExits\<rparr>) pythonConfig ''''
   \<and> waitAnswer (goodRun\<lparr>waitAnswer := NeverExits\<rparr>) = NeverExits
   \<and> snd (executeCode (goodRun\<lparr>waitAnswer := NeverExits\<rparr>)
            ''while True: pass'' ''python'' '''' emptySys) = Pending
   \<and> tempDir (goodRun\<lparr>waitAnswer := NeverExits\<rparr>)
        \<in> dirs (fst (executeCode (goodRun\<lparr>waitAnswer := NeverExits\<rparr>)
                       ''while True: pass'' ''python'' '''' emptySys))"
proof -
  have h1: "languageConfigs (toLowerCase ''python'') = Some pythonConfig"
    by (simp add: toLowerCase_python languageConfigs_python)
  have h2: "reachesWait (goodRun\<lparr>waitAnswer := NeverExits\<rparr>) pythonConfig ''''"
    by (simp add: reachesWait_def goodRun_def)
  have h3: "waitAnswer (goodRun\<lparr>waitAnswer := NeverExits\<rparr>) = NeverExits"
    by simp
  show ?thesis
    using h1 h2 h3
      executeCode_never_times_out [OF h1 h2 h3, of "''while True: pass''" emptySys]
    by simp
qed


subsection \<open>Removal of the workspace\<close>

text \<open>
  C2, as stated, fails: here the removal of the directory fails (in the \<^verbatim>\<open>try\<close> block
  and again in the \<^verbatim>\<open>catch\<close> block, where the failure is only logged);
  \<open>executeCode\<close> returns an error result and the directory is still on disk.
\<close>

theorem workspace_left_when_removal_fails:
  "snd (executeCode (goodRun\<lparr>rmError := Some ''EBUSY'', rmCatchError := Some ''EBUSY''\<rparr>)
          ''print(1)'' ''python'' '''' emptySys)
     = Returns (resultObject ''7f3c'' ''error'' ''EBUSY'' 1)
   \<and> dirs (fst (executeCode (goodRun\<lparr>rmError := Some ''EBUSY'', rmCatchError := Some ''EBUSY''\<rparr>)
          ''print(1)'' ''python'' '''' emptySys)) = {''/app/temp/7f3c''}"
  by (simp add: eval_defs)

text \<open>
  C2, amended: when \<open>executeCode\<close> returns, whatever the result, the directory it
  created no longer exists, provided the removal in the \<^verbatim>\<open>catch\<close> block does not
  itself fail (a result returned from the \<^verbatim>\<open>try\<close> block means that the removal
  there succeeded).
\<close>

theorem workspace_removed_on_return:
  assumes "executeCode w code language inp s = (s', Returns r)"
    and "rmCatchError w = None"
  shows "tempDir w \<notin> dirs s'"
  using assms
  by (auto elim!: executeCode_ReturnsE dest: tryBlock_returns_removed catchBlock_removed)

theorem workspace_removed_on_return_witness:
  "executeCode goodRun ''print(1)'' ''python'' '''' emptySys
     = (emptySys\<lparr>createCalls := [containerConfigFor goodRun pythonConfig '''']\<rparr>,
        Returns (resultObject ''7f3c'' ''success'' ''hi'' 0))
   \<and> rmCatchError goodRun = None
   \<and> tempDir goodRun
        \<notin> dirs (emptySys\<lparr>createCalls := [containerConfigFor goodRun pythonConfig '''']\<rparr>)"
proof -
  have h1: "executeCode goodRun ''print(1)'' ''python'' '''' emptySys
     = (emptySys\<lparr>createCalls := [containerConfigFor goodRun pythonConfig '''']\<rparr>,
        Returns (resultObject ''7f3c'' ''success'' ''hi'' 0))"
    by (simp add: eval_defs pythonConfig_def)
  have h2: "rmCatchError goodRun = None"
    by (simp add: goodRun_def)
  show ?thesis
    using h1 h2 workspace_removed_on_return [OF h1 h2] by simp
qed


subsection \<open>Unknown languages\<close>

text \<open>
  C5: the language \<^verbatim>\<open>constructor\<close> is not in the registry, but
  \<^verbatim>\<open>languageConfigs['constructor']\<close> is the inherited \<^verbatim>\<open>Object\<close> function, which
  passes the check \<^verbatim>\<open>if (!config)\<close>. The request is not rejected: the workspace
  directory is created, the file \<^verbatim>\<open>program.undefined\<close> is written, a pull of the image
  \<^verbatim>\<open>undefined\<close> is tried, and an ordinary error result is returned.
\<close>

theorem unknown_language_constructor_not_rejected:
  "\<not> registered ''constructor''
   \<and> executeCode (goodRun\<lparr>inspectError := Some ''no such image'',
                           pullError := Some ''invalid reference format''\<rparr>)
        ''x'' ''constructor'' '''' emptySys
      = (emptySys\<lparr>pulls := [None]\<rparr>,
         Returns (resultObject ''7f3c'' ''error'' ''invalid reference format'' 1))
   \<and> fst (tryBlock (goodRun\<lparr>inspectError := Some ''no such image'',
                            pullError := Some ''invalid reference format''\<rparr>)
        inheritedValue ''x'' ''constructor'' '''' emptySys)
      = emptySys\<lparr>dirs := {''/app/temp/7f3c''},
                  files := [(''/app/temp/7f3c/program.undefined'', ''x'')],
                  pulls := [None]\<rparr>"
  by (simp add: eval_defs registered_def)


subsection \<open>Natural exit\<close>





subsection \<open>The options of the container\<close>

lemma createsOnly_bind:
  assumes "createsOnly P m" and "\<And>x. createsOnly P (f x)"
  shows "createsOnly P (bind m f)"
  unfolding createsOnly_def
proof
  fix s
  obtain cs1 where 1: "createCalls (fst (m s)) = createCalls s @ cs1" "list_all P cs1"
    using assms(1) unfolding createsOnly_def by blast
  show "\<exists>cs. createCalls (fst (bind m f s)) = createCalls s @ cs \<and> list_all P cs"
  proof (cases "m s")
    case (Pair s1 r)
    show ?thesis
    proof (cases r)
      case (Returns x)
      obtain cs2 where 2: "createCalls (fst (f x s1)) = createCalls s1 @ cs2" "list_all P cs2"
        using assms(2)[of x] unfolding createsOnly_def by blast
      have "createCalls (fst (bind m f s)) = createCalls s @ (cs1 @ cs2)"
        using Pair Returns 1 2 by (simp add: bind_def)
      moreover have "list_all P (cs1 @ cs2)" using 1 2 by simp
      ultimately show ?thesis by blast
    next
      case (Throws e)
      then show ?thesis using Pair 1 by (auto simp add: bind_def)
    next
      case Pending
      then show ?thesis using Pair 1 by (auto simp add: bind_def)
    qed
  qed
qed

lemma createsOnly_tryCatch:
  assumes "createsOnly P m" and "\<And>e. createsOnly P (h e)"
  shows "createsOnly P (tryCatch m h)"
  unfolding createsOnly_def
proof
  fix s
  obtain cs1 where 1: "createCalls (fst (m s)) = createCalls s @ cs1" "list_all P cs1"
    using assms(1) unfolding createsOnly_def by blast
  show "\<exists>cs. createCalls (fst (tryCatch m h s)) = createCalls s @ cs \<and> list_all P cs"
  proof (cases "m s")
    case (Pair s1 r)
    show ?thesis
    proof (cases r)
      case (Throws e)
      obtain cs2 where 2: "createCalls (fst (h e s1)) = createCalls s1 @ cs2" "list_all P cs2"
        using assms(2)[of e] unfolding createsOnly_def by blast
      have "createCalls (fst (tryCatch m h s)) = createCalls s @ (cs1 @ cs2)"
        using Pair Throws 1 2 by (simp add: tryCatch_def)
      moreover have "list_all P (cs1 @ cs2)" using 1 2 by simp
      ultimately show ?thesis by blast
    next
      case (Returns x)
      then show ?thesis using Pair 1 by (auto simp add: tryCatch_def)
    next
      case Pending
      then show ?thesis using Pair 1 by (auto simp add: tryCatch_def)
    qed
  qed
qed

lemma createsOnly_frame:
  assumes "\<And>s. createCalls (fst (m s)) = createCalls s"
  shows "createsOnly P m"
  unfolding createsOnly_def using assms by simp

lemma createsOnly_ret: "createsOnly P (ret x)"
  by (rule createsOnly_frame) (simp add: ret_def)

lemma createsOnly_throw: "createsOnly P (throw e)"
  by (rule createsOnly_frame) (simp add: throw_def)

lemma createsOnly_rejectsWith:
  "createsOnly P m \<Longrightarrow> createsOnly P (rejectsWith err m)"
  by (cases err) (simp_all add: rejectsWith_def createsOnly_throw)

lemma createsOnly_ifThen:
  "createsOnly P m \<Longrightarrow> createsOnly P (ifThen b m)"
  by (simp add: ifThen_def createsOnly_ret)

lemma createsOnly_fs_mkdir: "createsOnly P (fs_mkdir err p)"
  unfolding fs_mkdir_def by (rule createsOnly_rejectsWith, rule createsOnly_frame) simp

lemma createsOnly_fs_writeFile: "createsOnly P (fs_writeFile err p c)"
  unfolding fs_writeFile_def by (rule createsOnly_rejectsWith, rule createsOnly_frame) simp

lemma createsOnly_fs_rm: "createsOnly P (fs_rm err p)"
  unfolding fs_rm_def by (rule createsOnly_rejectsWith, rule createsOnly_frame) simp

lemma createsOnly_docker_inspect: "createsOnly P (docker_inspect w img)"
  unfolding docker_inspect_def by (rule createsOnly_rejectsWith, rule createsOnly_ret)

lemma createsOnly_pullImage: "createsOnly P (pullImage w img)"
  by (rule createsOnly_frame)
     (simp add: pullImage_def rejectsWith_def ret_def throw_def split: option.splits)

lemma createsOnly_container_start: "createsOnly P (container_start w c)"
  unfolding container_start_def by (rule createsOnly_rejectsWith, rule createsOnly_frame) simp

lemma createsOnly_container_attach_write: "createsOnly P (container_attach_write w i)"
  unfolding container_attach_write_def
  by (rule createsOnly_rejectsWith, rule createsOnly_frame) simp

lemma createsOnly_container_wait: "createsOnly P (container_wait w c)"
  by (rule createsOnly_frame)
     (simp add: container_wait_def throw_def split: waitAnswer.splits)

lemma createsOnly_container_logs: "createsOnly P (container_logs w)"
  by (rule createsOnly_frame)
     (simp add: container_logs_def throw_def ret_def split: sum.splits)

lemma createsOnly_docker_createContainer:
  "P c \<Longrightarrow> createsOnly P (docker_createContainer w c)"
  unfolding createsOnly_def docker_createContainer_def
  by (auto split: option.splits)

lemmas createsOnly_intros = createsOnly_bind createsOnly_tryCatch createsOnly_ret
  createsOnly_throw createsOnly_ifThen createsOnly_fs_mkdir createsOnly_fs_writeFile
  createsOnly_fs_rm createsOnly_docker_inspect createsOnly_pullImage
  createsOnly_container_start createsOnly_container_attach_write
  createsOnly_container_wait createsOnly_container_logs

lemma createsOnly_catchBlock: "createsOnly P (catchBlock w e)"
  unfolding catchBlock_def by (intro createsOnly_intros)

lemma createsOnly_tryBlock:
  "P (containerConfigFor w config inp) \<Longrightarrow> createsOnly P (tryBlock w config code language inp)"
  unfolding tryBlock_def
  by (intro createsOnly_intros createsOnly_docker_createContainer)

lemma createsOnly_tryBlock2:
  "P (containerConfigFor2 w config) \<Longrightarrow> createsOnly P (tryBlock2 w config code language inp)"
  unfolding tryBlock2_def
  by (intro createsOnly_intros createsOnly_docker_createContainer)

lemma createsOnly_executeCode:
  "createsOnly (\<lambda>c. NetworkMode c = ''none'' \<and> AutoRemove c \<and> \<not> ReadonlyRootfs c)
     (executeCode w code language inp)"
  unfolding executeCode_def
  by (auto split: option.splits
      intro!: createsOnly_throw createsOnly_tryCatch createsOnly_tryBlock createsOnly_catchBlock
      simp add: containerConfigFor_def)

lemma createsOnly_executeCode2:
  "createsOnly (\<lambda>c. NetworkMode c = ''none'' \<and> AutoRemove c \<and> ReadonlyRootfs c)
     (executeCode2 w code language inp)"
  unfolding executeCode2_def
  by (auto split: option.splits
      intro!: createsOnly_throw createsOnly_tryCatch createsOnly_tryBlock2 createsOnly_catchBlock
      simp add: containerConfigFor2_def)

lemmas eval_defs2 = executeCode2_def tryBlock2_def catchBlock_def io_defs
  languageConfigs2_def ownConfigs2_def objectPrototypeKeys_def inheritedValue_def mkConfig2_def
  toLowerCase_def lowerChar_def truthy_def tempDir_def sourceFileName2_def startsWith_def
  containerConfigFor2_def goodRun_def emptySys_def

text \<open>
  C7, as stated, fails in both versions of the service. In the first, the run command of
  Python has no compile step, and its container is created with a writable root file
  system; in the second, the run command of Java compiles next to the source, and its
  container is created with a read-only root file system.
\<close>

theorem filesystem_policy_counterexample:
  "\<not> compileStep pythonConfig
   \<and> createCalls (fst (executeCode goodRun ''print(1)'' ''python'' '''' emptySys))
       = [containerConfigFor goodRun pythonConfig '''']
   \<and> \<not> ReadonlyRootfs (containerConfigFor goodRun pythonConfig '''')
   \<and> compileStep javaConfig2
   \<and> createCalls (fst (executeCode2 goodRun ''class A {}'' ''java'' '''' emptySys))
       = [containerConfigFor2 goodRun javaConfig2]
   \<and> ReadonlyRootfs (containerConfigFor2 goodRun javaConfig2)"
  apply (intro conjI)
       apply (simp add: compileStep_def pythonConfig_def mkConfig_def startsWith_def)
      apply (simp add: eval_defs pythonConfig_def)
     apply (simp add: containerConfigFor_def)
    apply (simp add: compileStep_def javaConfig2_def mkConfig2_def startsWith_def)
   apply (simp add: eval_defs2 javaConfig2_def matchAt_def stripPrefix_def)
  apply (simp add: containerConfigFor2_def)
  done

text \<open>
  C7, amended: every container that a batch execution creates has network mode
  \<^verbatim>\<open>none\<close> and is removed automatically on exit. The policy of the root file system
  does not depend on the language: in the first version of the service it is writable
  for every language, in the second it is read-only for every language.
\<close>

theorem batch_container_policy:
  "(\<exists>cs. createCalls (fst (executeCode w code language inp s)) = createCalls s @ cs
         \<and> list_all (\<lambda>c. NetworkMode c = ''none'' \<and> AutoRemove c \<and> \<not> ReadonlyRootfs c) cs)
   \<and> (\<exists>cs. createCalls (fst (executeCode2 w code language inp s)) = createCalls s @ cs
         \<and> list_all (\<lambda>c. NetworkMode c = ''none'' \<and> AutoRemove c \<and> ReadonlyRootfs c) cs)"
  using createsOnly_executeCode[of w code language inp]
    createsOnly_executeCode2[of w code language inp]
  unfolding createsOnly_def by blast

theorem batch_container_policy_witness:
  "createCalls (fst (executeCode goodRun ''print(1)'' ''python'' '''' emptySys))
     = [containerConfigFor goodRun pythonConfig '''']
   \<and> NetworkMode (containerConfigFor goodRun pythonConfig '''') = ''none''
   \<and> AutoRemove (containerConfigFor goodRun pythonConfig '''')
   \<and> \<not> ReadonlyRootfs (containerConfigFor goodRun pythonConfig '''')"
proof -
  have c: "createCalls (fst (executeCode goodRun ''print(1)'' ''python'' '''' emptySys))
     = [containerConfigFor goodRun pythonConfig '''']"
    by (simp add: eval_defs pythonConfig_def)
  obtain cs where cs: "createCalls (fst (executeCode goodRun ''print(1)'' ''python'' '''' emptySys))
      = createCalls emptySys @ cs"
    "list_all (\<lambda>c. NetworkMode c = ''none'' \<and> AutoRemove c \<and> \<not> ReadonlyRootfs c) cs"
    using batch_container_policy [of goodRun "''print(1)''" "''python''" "''''" emptySys]
    by blast
  have "cs = [containerConfigFor goodRun pythonConfig '''']"
    using c cs(1) by (simp add: emptySys_def)
  then show ?thesis using c cs(2) by simp
qed


subsection \<open>The name of the source file\<close>















section \<open>Properties of the mock Docker service\<close>






section \<open>Properties of the mock terminal service\<close>

lemma map_of_mapSet:
  "map_of (mapSet k v m) k' = (if k' = k then Some v else map_of m k')"
proof (cases "k \<in> set (map fst m)")
  case True
  have "map_of (map (\<lambda>p. if fst p = k then (k, v) else p) m) k'
          = (if k' = k then (if k \<in> set (map fst m) then Some v else None) else map_of m k')"
    by (induction m) force+
  then show ?thesis using True by (simp add: mapSet_def)
next
  case False
  then have "map_of m k = None" by (simp add: map_of_eq_None_iff)
  then show ?thesis using False by (auto simp add: mapSet_def map_add_def split: option.splits)
qed









lemma closed_emit [simp]: "closedSession (emit sock e st) sid = closedSession st sid"
  by (simp add: closedSession_def emit_def)

lemma closed_crash [simp]: "closedSession (crash st) sid"
  by (simp add: closedSession_def crash_def)





lemma closed_timers_update [simp]:
  "closedSession (st\<lparr>timers := ts\<rparr>) sid = closedSession st sid"
  by (simp add: closedSession_def)















section \<open>Properties of the terminal service\<close>

lemma getImageForLanguage_default:
  assumes "\<not> knownTerminalLanguage language"
    and "\<forall>l. language = Some l \<longrightarrow> toLowerCase l \<notin> set objectPrototypeKeys"
  shows "getImageForLanguage language = ImageName ''alpine:latest''"
proof (cases language)
  case None
  then show ?thesis by (simp add: getImageForLanguage_def)
next
  case (Some l)
  then have "toLowerCase l \<notin> set (map fst imageMap)"
    using assms(1) by (simp add: knownTerminalLanguage_def)
  then have "map_of imageMap (toLowerCase l) = None"
    by (simp add: map_of_eq_None_iff)
  then show ?thesis using Some assms(2) by (simp add: getImageForLanguage_def)
qed

lemma terminalCreate_default:
  assumes "\<not> knownTerminalLanguage language"
    and "\<forall>l. language = Some l \<longrightarrow> toLowerCase l \<notin> set objectPrototypeKeys"
    and "t_createError d = None" and "t_startError d = None" and "t_attachError d = None"
  shows "map_of (t_sessions (terminalCreate d sock language sessionId ts)) sessionId
           = Some (terminalOptionsFor (ImageName ''alpine:latest''), language)"
    and "t_emitted (terminalCreate d sock language sessionId ts)
           = t_emitted ts @ [(sock, TerminalCreated sessionId ''Terminal session created'')]"
  using assms(3,4,5) getImageForLanguage_default[OF assms(1,2)]
  by (simp_all add: terminalCreate_def Let_def map_of_mapSet)

text \<open>
  C10: \<^verbatim>\<open>constructor\<close> is not a known terminal language, but
  \<^verbatim>\<open>imageMap['constructor']\<close> is the inherited \<^verbatim>\<open>Object\<close> function, which is truthy,
  so the default \<^verbatim>\<open>alpine:latest\<close> is not used: \<^verbatim>\<open>createContainer\<close> is called with
  an image that is not a string, the daemon rejects the request, and no session is
  created.
\<close>

theorem terminal_image_constructor_not_default:
  "\<not> knownTerminalLanguage (Some ''constructor'')
   \<and> getImageForLanguage (Some ''constructor'') = InheritedProperty ''constructor''
   \<and> terminalCreate \<lparr>t_createError = Some ''invalid JSON'', t_startError = None,
                       t_attachError = None\<rparr> 1 (Some ''constructor'') ''s1'' noTerminals
     = \<lparr> t_sessions = [],
         t_createCalls = [terminalOptionsFor (InheritedProperty ''constructor'')],
         t_emitted = [(1, TerminalError ''Failed to create terminal session'')] \<rparr>"
  by (simp add: knownTerminalLanguage_def getImageForLanguage_def terminalCreate_def
      imageMap_def objectPrototypeKeys_def toLowerCase_def lowerChar_def truthy_def
      noTerminals_def Let_def)


section \<open>Properties of concurrent executions\<close>

lemma runSchedule_append:
  "runSchedule pe st (xs @ ys) = runSchedule pe (runSchedule pe st xs) ys"
  by (simp add: runSchedule_def)

lemma runSchedule_snoc:
  "runSchedule pe st (xs @ [i]) = ensureStep pe (runSchedule pe st xs) i"
  by (simp add: runSchedule_def)

lemma map_upt_update:
  "i < n \<Longrightarrow> (map f [0..<n])[i := v] = map (f(i := v)) [0..<n]"
  by (rule nth_equalityI) (auto simp add: nth_list_update)

lemma inspect_any_order:
  assumes "distinct p"
  shows "runSchedule pe (startAll n) p
     = \<lparr> cached = False, pullsIssued = length (filter (\<lambda>i. i < n) p),
         tasks = map (\<lambda>i. if i \<in> set p then Pulling else Inspecting) [0..<n] \<rparr>"
  using assms
proof (induction p rule: rev_induct)
  case Nil
  then show ?case by (simp add: runSchedule_def startAll_def map_replicate_const)
next
  case (snoc i p)
  then have ip: "i \<notin> set p" and dp: "distinct p" by simp_all
  have ih: "runSchedule pe (startAll n) p
     = \<lparr> cached = False, pullsIssued = length (filter (\<lambda>i. i < n) p),
         tasks = map (\<lambda>i. if i \<in> set p then Pulling else Inspecting) [0..<n] \<rparr>"
    using snoc.IH dp by simp
  show ?case
  proof (cases "i < n")
    case True
    have nth: "map (\<lambda>i. if i \<in> set p then Pulling else Inspecting) [0..<n] ! i = Inspecting"
      using True ip by simp
    have upd: "(map (\<lambda>i. if i \<in> set p then Pulling else Inspecting) [0..<n])[i := Pulling]
        = map (\<lambda>j. if j \<in> set (p @ [i]) then Pulling else Inspecting) [0..<n]"
      using True by (simp add: map_upt_update fun_upd_def) 
    show ?thesis
      using True by (simp add: runSchedule_snoc ih ensureStep_def nth upd del: set_append)
  next
    case False
    have same: "map (\<lambda>j. if j \<in> set (p @ [i]) then Pulling else Inspecting) [0..<n]
        = map (\<lambda>i. if i \<in> set p then Pulling else Inspecting) [0..<n]"
      using False by (intro map_cong) auto
    show ?thesis
      using False by (simp add: runSchedule_snoc ih ensureStep_def same del: set_append)
  qed
qed

lemma pull_any_order:
  "runSchedule pe \<lparr> cached = False, pullsIssued = k, tasks = map (\<lambda>i. Pulling) [0..<n] \<rparr> rest
     = \<lparr> cached = (\<exists>i \<in> set rest. i < n \<and> pe i = None), pullsIssued = k,
         tasks = map (\<lambda>i. if i \<in> set rest then pullOutcome pe i else Pulling) [0..<n] \<rparr>"
proof (induction rest rule: rev_induct)
  case Nil
  then show ?case by (simp add: runSchedule_def)
next
  case (snoc i rest)
  let ?f = "\<lambda>j. if j \<in> set rest then pullOutcome pe j else Pulling"
  let ?g = "\<lambda>j. if j \<in> set (rest @ [i]) then pullOutcome pe j else Pulling"
  have ih: "runSchedule pe \<lparr> cached = False, pullsIssued = k, tasks = map (\<lambda>i. Pulling) [0..<n] \<rparr> rest
     = \<lparr> cached = (\<exists>i \<in> set rest. i < n \<and> pe i = None), pullsIssued = k,
         tasks = map ?f [0..<n] \<rparr>"
    using snoc.IH by simp
  show ?case
  proof (cases "i < n")
    case False
    have same: "map ?g [0..<n] = map ?f [0..<n]"
      using False by (intro map_cong) auto
    have ex: "(\<exists>j \<in> set (rest @ [i]). j < n \<and> pe j = None)
        \<longleftrightarrow> (\<exists>j \<in> set rest. j < n \<and> pe j = None)"
      using False by auto
    show ?thesis
      using False by (simp add: runSchedule_snoc ih ensureStep_def same ex del: set_append)
  next
    case True
    show ?thesis
    proof (cases "i \<in> set rest")
      case old: True
      have same: "map ?g [0..<n] = map ?f [0..<n]"
        using old by (intro map_cong) auto
      have ex: "(\<exists>j \<in> set (rest @ [i]). j < n \<and> pe j = None)
          \<longleftrightarrow> (\<exists>j \<in> set rest. j < n \<and> pe j = None)"
        using old by auto
      have nth: "map ?f [0..<n] ! i = pullOutcome pe i"
        using True old by simp
      show ?thesis
        using True
        by (cases "pe i")
           (simp_all add: runSchedule_snoc ih ensureStep_def same ex nth pullOutcome_def
              del: set_append)
    next
      case new: False
      have nth: "map ?f [0..<n] ! i = Pulling"
        using True new by simp
      have upd: "(map ?f [0..<n])[i := pullOutcome pe i] = map ?g [0..<n]"
        using True by (simp add: map_upt_update fun_upd_def)
      have ex: "(\<exists>j \<in> set (rest @ [i]). j < n \<and> pe j = None)
          \<longleftrightarrow> (\<exists>j \<in> set rest. j < n \<and> pe j = None) \<or> pe i = None"
        using True by auto
      show ?thesis
      proof (cases "pe i")
        case None
        then have po: "pullOutcome pe i = ImageReady" by (simp add: pullOutcome_def)
        show ?thesis
          using True None upd[unfolded po]
          by (simp add: runSchedule_snoc ih ensureStep_def nth ex del: set_append)
      next
        case (Some e)
        then have po: "pullOutcome pe i = PullFailed e" by (simp add: pullOutcome_def)
        show ?thesis
          using True Some upd[unfolded po]
          by (simp add: runSchedule_snoc ih ensureStep_def nth ex del: set_append)
      qed
    qed
  qed
qed

lemma inspects_first:
  assumes "distinct p" and "{0..<n} \<subseteq> set p"
  shows "runSchedule pe (startAll n) (p @ rest)
     = \<lparr> cached = (\<exists>i \<in> set rest. i < n \<and> pe i = None), pullsIssued = n,
         tasks = map (\<lambda>i. if i \<in> set rest then pullOutcome pe i else Pulling) [0..<n] \<rparr>"
proof -
  have "set (filter (\<lambda>i. i < n) p) = {0..<n}"
    using assms(2) by auto
  moreover have "distinct (filter (\<lambda>i. i < n) p)"
    using assms(1) by simp
  ultimately have len: "length (filter (\<lambda>i. i < n) p) = n"
    by (metis card_atLeastLessThan distinct_card minus_nat.diff_0)
  have all: "map (\<lambda>i. if i \<in> set p then Pulling else Inspecting) [0..<n]
      = map (\<lambda>i. Pulling) [0..<n]"
    using assms(2) by (intro map_cong) auto
  show ?thesis
    by (simp only: runSchedule_append inspect_any_order[OF assms(1)] len all pull_any_order)
qed

lemma length_tasks_ensureStep [simp]:
  "length (tasks (ensureStep pe st i)) = length (tasks st)"
  by (simp add: ensureStep_def split: ensureTask.splits option.splits)

lemma length_tasks_run [simp]:
  "length (tasks (runSchedule pe st schedule)) = length (tasks st)"
  by (induction schedule rule: rev_induct) (simp_all add: runSchedule_def)

lemma absent_image_pulls:
  assumes "i < n"
    and "tasks (runSchedule pe (startAll n) schedule) ! i = Inspecting"
    and "\<not> cached (runSchedule pe (startAll n) schedule)"
  shows "pullsIssued (runSchedule pe (startAll n) (schedule @ [i]))
           = Suc (pullsIssued (runSchedule pe (startAll n) schedule))"
    and "tasks (runSchedule pe (startAll n) (schedule @ [i])) ! i = Pulling"
proof -
  have "i < length (tasks (runSchedule pe (startAll n) schedule))"
    using assms(1) by (simp add: startAll_def)
  then show "pullsIssued (runSchedule pe (startAll n) (schedule @ [i]))
           = Suc (pullsIssued (runSchedule pe (startAll n) schedule))"
    and "tasks (runSchedule pe (startAll n) (schedule @ [i])) ! i = Pulling"
    using assms(2,3) by (simp_all add: runSchedule_snoc ensureStep_def)
qed

lemma cached_image_no_pull:
  assumes "i < n"
    and "tasks (runSchedule pe (startAll n) schedule) ! i = Inspecting"
    and "cached (runSchedule pe (startAll n) schedule)"
  shows "pullsIssued (runSchedule pe (startAll n) (schedule @ [i]))
           = pullsIssued (runSchedule pe (startAll n) schedule)"
    and "tasks (runSchedule pe (startAll n) (schedule @ [i])) ! i = ImageReady"
proof -
  have "i < length (tasks (runSchedule pe (startAll n) schedule))"
    using assms(1) by (simp add: startAll_def)
  then show "pullsIssued (runSchedule pe (startAll n) (schedule @ [i]))
           = pullsIssued (runSchedule pe (startAll n) schedule)"
    and "tasks (runSchedule pe (startAll n) (schedule @ [i])) ! i = ImageReady"
    using assms(2,3) by (simp_all add: runSchedule_snoc ensureStep_def)
qed

lemma filter_update_length:
  "i < length xs \<Longrightarrow>
   length (filter P (xs[i := y])) + (if P (xs ! i) then 1 else 0)
     = length (filter P xs) + (if P y then 1 else 0)"
proof (induction xs arbitrary: i)
  case Nil
  then show ?case by simp
next
  case (Cons x xs)
  then show ?case by (cases i) auto
qed

lemma ensureStep_bound:
  "pullsIssued (ensureStep pe st i) + waiting (ensureStep pe st i) \<le> pullsIssued st + waiting st"
proof (cases "i < length (tasks st)")
  case False
  then show ?thesis by (simp add: ensureStep_def)
next
  case True
  show ?thesis
  proof (cases "tasks st ! i")
    case Inspecting
    have a: "Suc (length (filter (\<lambda>t. t = Inspecting) ((tasks st)[i := ImageReady])))
          = length (filter (\<lambda>t. t = Inspecting) (tasks st))"
      using filter_update_length[OF True, of "\<lambda>t. t = Inspecting" ImageReady] Inspecting
      by simp
    have b: "Suc (length (filter (\<lambda>t. t = Inspecting) ((tasks st)[i := Pulling])))
          = length (filter (\<lambda>t. t = Inspecting) (tasks st))"
      using filter_update_length[OF True, of "\<lambda>t. t = Inspecting" Pulling] Inspecting
      by simp
    show ?thesis
    proof (cases "cached st")
      case True
      then show ?thesis using \<open>i < length (tasks st)\<close> Inspecting a
        by (simp add: ensureStep_def waiting_def)
    next
      case False
      then show ?thesis using \<open>i < length (tasks st)\<close> Inspecting b
        by (simp add: ensureStep_def waiting_def)
    qed
  next
    case Pulling
    have c: "\<And>y. y \<noteq> Inspecting \<Longrightarrow>
        length (filter (\<lambda>t. t = Inspecting) ((tasks st)[i := y]))
          = length (filter (\<lambda>t. t = Inspecting) (tasks st))"
      using filter_update_length[OF True, of "\<lambda>t. t = Inspecting"] Pulling by simp
    show ?thesis
    proof (cases "pe i")
      case None
      then show ?thesis using True Pulling c[of ImageReady]
        by (simp add: ensureStep_def waiting_def)
    next
      case (Some e)
      then show ?thesis using True Pulling c[of "PullFailed e"]
        by (simp add: ensureStep_def waiting_def)
    qed
  next
    case ImageReady
    then show ?thesis using True by (simp add: ensureStep_def)
  next
    case (PullFailed e)
    then show ?thesis using True by (simp add: ensureStep_def)
  qed
qed

lemma runSchedule_bound:
  "pullsIssued (runSchedule pe st schedule) + waiting (runSchedule pe st schedule)
     \<le> pullsIssued st + waiting st"
proof (induction schedule rule: rev_induct)
  case Nil
  then show ?case by (simp add: runSchedule_def)
next
  case (snoc i schedule)
  show ?case
    using ensureStep_bound[of pe "runSchedule pe st schedule" i] snoc
    by (simp add: runSchedule_snoc)
qed

lemma pulls_at_most_n: "pullsIssued (runSchedule pe (startAll n) schedule) \<le> n"
  using runSchedule_bound[of pe "startAll n" schedule]
  by (simp add: startAll_def waiting_def)

lemma executeCode_pull_failure:
  assumes "languageConfigs (toLowerCase language) = Some config"
    and "mkdirError w = None" and "writeCodeError w = None"
    and "truthy inp \<longrightarrow> writeInputError w = None"
    and "inspectError w = Some x" and "pullError w = Some e"
  shows "snd (executeCode w code language inp s) = Returns (resultObject (uuid w) ''error'' e 1)"
proof -
  have "snd (tryBlock w config code language inp s) = Throws e"
    using assms(2-6) by (auto simp add: tryBlock_def io_defs)
  then obtain s1 where t: "tryBlock w config code language inp s = (s1, Throws e)"
    by (cases "tryBlock w config code language inp s") simp
  have "snd (catchBlock w e s1) = Returns (resultObject (uuid w) ''error'' e 1)"
    by (cases "rmCatchError w") (simp_all add: catchBlock_def io_defs)
  then show ?thesis
    using assms(1) t by (simp add: executeCode_def tryCatch_def)
qed

text \<open>
  C3, as stated, fails: two executions need the same image, which is not cached, and
  both inspects are answered before a pull ends. Two pulls are issued; and when the pull
  of the first execution fails and that of the second succeeds, the first fails and the
  second goes on.
\<close>

theorem single_flight_counterexample:
  "pullsIssued (runSchedule (\<lambda>i. None) (startAll 2) [0, 1, 0, 1]) = 2
   \<and> tasks (runSchedule (\<lambda>i. None) (startAll 2) [0, 1, 0, 1]) = [ImageReady, ImageReady]
   \<and> tasks (runSchedule (\<lambda>i. if i = 0 then Some ''connection reset'' else None)
              (startAll 2) [0, 1, 0, 1])
       = [PullFailed ''connection reset'', ImageReady]"
  by (simp add: runSchedule_def startAll_def ensureStep_def numeral_2_eq_2)

text \<open>
  C3, amended: there is no single-flight marker. In every schedule, an execution whose
  inspect is answered while the image is not cached issues its own pull, and one whose
  inspect is answered when the image is cached issues none; so \<open>n\<close> concurrent
  executions issue at most \<open>n\<close> pulls. In every schedule in which all inspects are
  answered before a pull ends (it begins with every execution once, in any order)
  exactly \<open>n\<close> pulls are issued, and every execution whose pull has ended has gone on or
  failed according to its own pull. An execution whose pull fails returns an ordinary
  error result: status \<^verbatim>\<open>error\<close>, the message of the pull error as output, exit code 1.
\<close>

theorem each_execution_issues_its_own_pull:
  "pullsIssued (runSchedule pullErr (startAll n) schedule) \<le> n
   \<and> (i < n \<and> tasks (runSchedule pullErr (startAll n) schedule) ! i = Inspecting
        \<and> \<not> cached (runSchedule pullErr (startAll n) schedule)
      \<longrightarrow> pullsIssued (runSchedule pullErr (startAll n) (schedule @ [i]))
            = Suc (pullsIssued (runSchedule pullErr (startAll n) schedule))
          \<and> tasks (runSchedule pullErr (startAll n) (schedule @ [i])) ! i = Pulling)
   \<and> (i < n \<and> tasks (runSchedule pullErr (startAll n) schedule) ! i = Inspecting
        \<and> cached (runSchedule pullErr (startAll n) schedule)
      \<longrightarrow> pullsIssued (runSchedule pullErr (startAll n) (schedule @ [i]))
            = pullsIssued (runSchedule pullErr (startAll n) schedule)
          \<and> tasks (runSchedule pullErr (startAll n) (schedule @ [i])) ! i = ImageReady)
   \<and> (distinct inspects \<and> {0..<n} \<subseteq> set inspects
      \<longrightarrow> pullsIssued (runSchedule pullErr (startAll n) (inspects @ rest)) = n
          \<and> tasks (runSchedule pullErr (startAll n) (inspects @ rest))
              = map (\<lambda>j. if j \<in> set rest then pullOutcome pullErr j else Pulling) [0..<n])
   \<and> (languageConfigs (toLowerCase language) = Some config
        \<and> mkdirError w = None \<and> writeCodeError w = None
        \<and> (truthy inp \<longrightarrow> writeInputError w = None)
        \<and> inspectError w = Some x \<and> pullError w = Some e
      \<longrightarrow> snd (executeCode w code language inp s)
            = Returns (resultObject (uuid w) ''error'' e 1))"
proof (intro conjI impI)
  show "pullsIssued (runSchedule pullErr (startAll n) schedule) \<le> n"
    by (rule pulls_at_most_n)
next
  assume a: "i < n \<and> tasks (runSchedule pullErr (startAll n) schedule) ! i = Inspecting
        \<and> \<not> cached (runSchedule pullErr (startAll n) schedule)"
  show "pullsIssued (runSchedule pullErr (startAll n) (schedule @ [i]))
            = Suc (pullsIssued (runSchedule pullErr (startAll n) schedule))"
    using a absent_image_pulls(1)[of i n pullErr schedule] by blast
  show "tasks (runSchedule pullErr (startAll n) (schedule @ [i])) ! i = Pulling"
    using a absent_image_pulls(2)[of i n pullErr schedule] by blast
next
  assume a: "i < n \<and> tasks (runSchedule pullErr (startAll n) schedule) ! i = Inspecting
        \<and> cached (runSchedule pullErr (startAll n) schedule)"
  show "pullsIssued (runSchedule pullErr (startAll n) (schedule @ [i]))
            = pullsIssued (runSchedule pullErr (startAll n) schedule)"
    using a cached_image_no_pull(1)[of i n pullErr schedule] by blast
  show "tasks (runSchedule pullErr (startAll n) (schedule @ [i])) ! i = ImageReady"
    using a cached_image_no_pull(2)[of i n pullErr schedule] by blast
next
  assume a: "distinct inspects \<and> {0..<n} \<subseteq> set inspects"
  then have r: "runSchedule pullErr (startAll n) (inspects @ rest)
     = \<lparr> cached = (\<exists>i \<in> set rest. i < n \<and> pullErr i = None), pullsIssued = n,
         tasks = map (\<lambda>i. if i \<in> set rest then pullOutcome pullErr i else Pulling) [0..<n] \<rparr>"
    using inspects_first[of inspects n pullErr rest] by blast
  show "pullsIssued (runSchedule pullErr (startAll n) (inspects @ rest)) = n"
    unfolding r by simp
  show "tasks (runSchedule pullErr (startAll n) (inspects @ rest))
              = map (\<lambda>j. if j \<in> set rest then pullOutcome pullErr j else Pulling) [0..<n]"
    unfolding r by simp
next
  assume "languageConfigs (toLowerCase language) = Some config
        \<and> mkdirError w = None \<and> writeCodeError w = None
        \<and> (truthy inp \<longrightarrow> writeInputError w = None)
        \<and> inspectError w = Some x \<and> pullError w = Some e"
  then show "snd (executeCode w code language inp s)
            = Returns (resultObject (uuid w) ''error'' e 1)"
    using executeCode_pull_failure[of language config w inp x e code s] by blast
qed

theorem each_execution_issues_its_own_pull_witness:
  "pullsIssued (runSchedule (\<lambda>i. None) (startAll 2) [0, 0, 1]) \<le> 2
   \<and> pullsIssued (runSchedule (\<lambda>i. None) (startAll 2) [0]) = 1
   \<and> pullsIssued (runSchedule (\<lambda>i. None) (startAll 2) ([0] @ [1])) = 2
   \<and> pullsIssued (runSchedule (\<lambda>i. None) (startAll 2) [0, 0]) = 1
   \<and> pullsIssued (runSchedule (\<lambda>i. None) (startAll 2) ([0, 0] @ [1])) = 1
   \<and> distinct [2, 0, 1::nat] \<and> {0..<3} \<subseteq> set [2, 0, 1::nat]
   \<and> pullsIssued (runSchedule (\<lambda>i. if i = 0 then Some ''connection reset'' else None)
                    (startAll 3) ([2, 0, 1] @ [1, 0])) = 3
   \<and> tasks (runSchedule (\<lambda>i. if i = 0 then Some ''connection reset'' else None)
              (startAll 3) ([2, 0, 1] @ [1, 0]))
       = [PullFailed ''connection reset'', ImageReady, Pulling]
   \<and> languageConfigs (toLowerCase ''python'') = Some pythonConfig
   \<and> snd (executeCode (goodRun\<lparr>inspectError := Some ''no such image'',
                                  pullError := Some ''connection reset''\<rparr>)
            ''print(1)'' ''python'' '''' emptySys)
       = Returns (resultObject ''7f3c'' ''error'' ''connection reset'' 1)"
proof -
  let ?w = "goodRun\<lparr>inspectError := Some ''no such image'',
                      pullError := Some ''connection reset''\<rparr>"
  let ?pe = "\<lambda>i::nat. if i = 0 then Some ''connection reset'' else None"
  have a1: "(1::nat) < 2 \<and> tasks (runSchedule (\<lambda>i. None) (startAll 2) [0]) ! 1 = Inspecting
      \<and> \<not> cached (runSchedule (\<lambda>i. None) (startAll 2) [0])"
    by (simp add: runSchedule_def startAll_def ensureStep_def numeral_2_eq_2)
  have p1: "pullsIssued (runSchedule (\<lambda>i. None) (startAll 2) [0]) = 1"
    by (simp add: runSchedule_def startAll_def ensureStep_def numeral_2_eq_2)
  have a2: "(1::nat) < 2 \<and> tasks (runSchedule (\<lambda>i. None) (startAll 2) [0, 0]) ! 1 = Inspecting
      \<and> cached (runSchedule (\<lambda>i. None) (startAll 2) [0, 0])"
    by (simp add: runSchedule_def startAll_def ensureStep_def numeral_2_eq_2)
  have p2: "pullsIssued (runSchedule (\<lambda>i. None) (startAll 2) [0, 0]) = 1"
    by (simp add: runSchedule_def startAll_def ensureStep_def numeral_2_eq_2)
  have a3: "distinct [2, 0, 1::nat] \<and> {0..<3} \<subseteq> set [2, 0, 1::nat]"
    by auto
  have m: "map (\<lambda>j. if j \<in> set [1, 0::nat] then pullOutcome ?pe j else Pulling) [0..<3]
      = [PullFailed ''connection reset'', ImageReady, Pulling]"
    by (simp add: pullOutcome_def upt_rec)
  have h: "languageConfigs (toLowerCase ''python'') = Some pythonConfig"
    by (simp add: toLowerCase_python languageConfigs_python)
  have a4: "languageConfigs (toLowerCase ''python'') = Some pythonConfig
      \<and> mkdirError ?w = None \<and> writeCodeError ?w = None
      \<and> (truthy '''' \<longrightarrow> writeInputError ?w = None)
      \<and> inspectError ?w = Some ''no such image'' \<and> pullError ?w = Some ''connection reset''"
    using h by (simp add: goodRun_def truthy_def)
  have u: "uuid ?w = ''7f3c''"
    by (simp add: goodRun_def)
  note t1 = each_execution_issues_its_own_pull [of "\<lambda>i. None" 2 "[0]" 1 "[]" "[]"
      "''python''" pythonConfig ?w "''''" "''no such image''" "''connection reset''"
      "''print(1)''" emptySys]
  note t2 = each_execution_issues_its_own_pull [of "\<lambda>i. None" 2 "[0, 0]" 1 "[]" "[]"
      "''python''" pythonConfig ?w "''''" "''no such image''" "''connection reset''"
      "''print(1)''" emptySys]
  note t3 = each_execution_issues_its_own_pull [of ?pe 3 "[0, 0, 1]" 1 "[2, 0, 1]" "[1, 0]"
      "''python''" pythonConfig ?w "''''" "''no such image''" "''connection reset''"
      "''print(1)''" emptySys]
  note t4 = each_execution_issues_its_own_pull [of "\<lambda>i. None" 2 "[0, 0, 1]" 1 "[]" "[]"
      "''python''" pythonConfig ?w "''''" "''no such image''" "''connection reset''"
      "''print(1)''" emptySys]
  have c0: "pullsIssued (runSchedule (\<lambda>i. None) (startAll 2) [0, 0, 1]) \<le> 2"
    using t4 by blast
  have c1: "pullsIssued (runSchedule (\<lambda>i. None) (startAll 2) ([0] @ [1])) = 2"
    using t1 a1 p1 by simp
  have c2: "pullsIssued (runSchedule (\<lambda>i. None) (startAll 2) ([0, 0] @ [1])) = 1"
    using t2 a2 p2 by simp
  have c3: "pullsIssued (runSchedule ?pe (startAll 3) ([2, 0, 1] @ [1, 0])) = 3"
    using t3 a3 by blast
  have "tasks (runSchedule ?pe (startAll 3) ([2, 0, 1] @ [1, 0]))
      = map (\<lambda>j. if j \<in> set [1, 0::nat] then pullOutcome ?pe j else Pulling) [0..<3]"
    using t3 a3 by blast
  then have c4: "tasks (runSchedule ?pe (startAll 3) ([2, 0, 1] @ [1, 0]))
      = [PullFailed ''connection reset'', ImageReady, Pulling]"
    unfolding m .
  have c5: "snd (executeCode ?w ''print(1)'' ''python'' '''' emptySys)
       = Returns (resultObject ''7f3c'' ''error'' ''connection reset'' 1)"
    using t3 a4 u by simp
  show ?thesis
    using c0 p1 c1 p2 c2 a3 c3 c4 h c5 by blast
qed

end
